theory Spec2Isabelle
  imports Main "HOL-Library.Char_ord" "HOL-Library.List_Lexorder" "HOL-Library.Multiset"
begin

section \<open>JavaScript values and \<open>JSON.stringify\<close>\<close>

text \<open>
  The integrity engine is the class \<open>CryptoUtils\<close> (utils/crypto.js) and the routes of
  routes/verification.js. Records are rows fetched from PostgreSQL: JavaScript objects
  whose own properties are kept in insertion order. A row is modelled as an association
  list in insertion order; a JavaScript object has no duplicate keys, so the theorems
  about rows assume \<open>distinct (map fst r)\<close>.

  Strings are byte strings (the UTF-8 text that \<open>hash.update\<close> consumes). The value kinds
  are the ones a row or a request body can hold: null, undefined, booleans, integer-valued
  numbers, strings, \<open>Date\<close> objects (kept as their \<open>toISOString()\<close> text, which identifies
  a valid date), arrays and nested objects (JSON columns), plus the two kinds the
  canonicaliser has no schema for: callables and binary \<open>Buffer\<close>s.
\<close>

datatype jsval =
    JNull
  | JUndefined
  | JBool bool
  | JNum int
  | JStr string
  | JDate string
  | JArr "jsval list"
  | JObj "(string \<times> jsval) list"
  | JFunction
  | JBuffer "nat list"

type_synonym jsobject = "(string \<times> jsval) list"

text \<open>
  \<open>Number.prototype.toString\<close> on an integer-valued number: decimal digits, with a sign
  (the plain decimal form, which JavaScript prints for magnitudes below \<open>10^21\<close>).
\<close>

fun digits :: "nat \<Rightarrow> string" where
  "digits n =
     (if n < 10 then [''0123456789'' ! n]
      else digits (n div 10) @ [''0123456789'' ! (n mod 10)])"

declare digits.simps [simp del]

definition Number_toString :: "int \<Rightarrow> string" where
  "Number_toString i = (if i < 0 then CHR ''-'' # digits (nat (- i)) else digits (nat i))"

text \<open>
  \<open>QuoteJSONString\<close>: the double quote and the backslash are escaped, the control
  characters below 0x20 are written with their short escapes or as \<open>\u00XX\<close>, every
  other byte is kept.
\<close>

definition hex_digit :: "nat \<Rightarrow> char" where
  "hex_digit n = ''0123456789abcdef'' ! (n mod 16)"

definition escape_char :: "char \<Rightarrow> string" where
  "escape_char c =
     (if c = CHR 0x22 then [CHR 0x5C, CHR 0x22]
      else if c = CHR 0x5C then [CHR 0x5C, CHR 0x5C]
      else if c = CHR 0x08 then [CHR 0x5C, CHR ''b'']
      else if c = CHR 0x09 then [CHR 0x5C, CHR ''t'']
      else if c = CHR 0x0A then [CHR 0x5C, CHR ''n'']
      else if c = CHR 0x0C then [CHR 0x5C, CHR ''f'']
      else if c = CHR 0x0D then [CHR 0x5C, CHR ''r'']
      else if (of_char c :: nat) < 32
        then [CHR 0x5C, CHR ''u'', CHR ''0'', CHR ''0'',
              hex_digit (of_char c div 16), hex_digit (of_char c)]
      else [c])"

definition QuoteJSONString :: "string \<Rightarrow> string" where
  "QuoteJSONString s = CHR 0x22 # concat (map escape_char s) @ [CHR 0x22]"

fun join_comma :: "string list \<Rightarrow> string" where
  "join_comma [] = []"
| "join_comma [x] = x"
| "join_comma (x # y # ys) = x @ CHR '','' # join_comma (y # ys)"

text \<open>
  The order in which an object's own string keys are enumerated (\<open>Object.keys\<close>,
  \<open>JSON.stringify\<close>): the array indices first, in ascending numeric order, then the other
  keys in insertion order. A key is an array index when it is the canonical decimal text
  of an integer below \<open>2^32 - 1\<close>.
\<close>

definition dec_value :: "string \<Rightarrow> nat" where
  "dec_value s = foldl (\<lambda>a c. 10 * a + (of_char c - 48)) 0 s"

definition is_array_index :: "string \<Rightarrow> bool" where
  "is_array_index k = (digits (dec_value k) = k \<and> dec_value k < 4294967295)"

definition OwnPropertyKeys_order :: "(string \<times> 'a) list \<Rightarrow> (string \<times> 'a) list" where
  "OwnPropertyKeys_order ps =
     sort_key (\<lambda>p. dec_value (fst p)) (filter (\<lambda>p. is_array_index (fst p)) ps)
     @ filter (\<lambda>p. \<not> is_array_index (fst p)) ps"

definition Object_keys :: "jsobject \<Rightarrow> string list" where
  "Object_keys obj = map fst (OwnPropertyKeys_order obj)"

text \<open>
  \<open>SerializeJSONObject\<close> on the members that have a serialisation, given as
  (key, text of the value): compact, no whitespace.
\<close>

definition JSON_member :: "string \<times> string \<Rightarrow> string" where
  "JSON_member p = QuoteJSONString (fst p) @ CHR '':'' # snd p"

definition SerializeJSONObject :: "(string \<times> string) list \<Rightarrow> string" where
  "SerializeJSONObject ms =
     CHR ''{'' # join_comma (map JSON_member (OwnPropertyKeys_order ms)) @ ''}''"

text \<open>
  \<open>Buffer.prototype.toJSON\<close> gives \<open>{type: 'Buffer', data: [bytes]}\<close>, which is what
  \<open>JSON.stringify\<close> then serialises.
\<close>

definition Buffer_JSON :: "nat list \<Rightarrow> string" where
  "Buffer_JSON bs =
     SerializeJSONObject
       [(''type'', QuoteJSONString ''Buffer''),
        (''data'', CHR ''['' # join_comma (map (\<lambda>b. Number_toString (int b)) bs) @ '']'')]"

text \<open>
  \<open>SerializeJSONProperty\<close>: \<open>None\<close> is JavaScript's \<open>undefined\<close> (the value has no JSON
  text). An object member without a text is left out; an array element without a text is
  written \<open>null\<close>. A \<open>Date\<close> is written through \<open>toJSON\<close>, as its quoted ISO text.
\<close>

fun JSON_value :: "jsval \<Rightarrow> string option"
  and JSON_elements :: "jsval list \<Rightarrow> string list"
  and JSON_members :: "(string \<times> jsval) list \<Rightarrow> (string \<times> string) list" where
  "JSON_value JNull = Some ''null''"
| "JSON_value JUndefined = None"
| "JSON_value JFunction = None"
| "JSON_value (JBool b) = Some (if b then ''true'' else ''false'')"
| "JSON_value (JNum n) = Some (Number_toString n)"
| "JSON_value (JStr s) = Some (QuoteJSONString s)"
| "JSON_value (JDate t) = Some (QuoteJSONString t)"
| "JSON_value (JBuffer bs) = Some (Buffer_JSON bs)"
| "JSON_value (JArr xs) = Some (CHR ''['' # join_comma (JSON_elements xs) @ '']'')"
| "JSON_value (JObj ps) = Some (SerializeJSONObject (JSON_members ps))"
| "JSON_elements [] = []"
| "JSON_elements (x # xs) =
     (case JSON_value x of None \<Rightarrow> ''null'' | Some s \<Rightarrow> s) # JSON_elements xs"
| "JSON_members [] = []"
| "JSON_members (p # ps) =
     (case JSON_value (snd p) of
        None \<Rightarrow> JSON_members ps
      | Some s \<Rightarrow> (fst p, s) # JSON_members ps)"

definition JSON_stringify :: "jsobject \<Rightarrow> string" where
  "JSON_stringify obj = SerializeJSONObject (JSON_members obj)"

section \<open>The canonicaliser and the hasher\<close>

definition excludeFields :: "string list" where
  "excludeFields =
     [''record_hash'', ''created_at'', ''updated_at'', ''verification_status'', ''canonical_json'']"

text \<open>
  \<open>createCanonicalJson\<close>: the keys outside \<open>excludeFields\<close>, sorted by \<open>sort()\<close>, are
  copied into \<open>cleanRecord\<close> one by one unless the value is \<open>null\<close> or \<open>undefined\<close>;
  the result is \<open>JSON.stringify(cleanRecord, null, 0)\<close>. The default \<open>sort()\<close> orders
  strings by code unit; on the ASCII column names of the schema that is the
  lexicographic order of the bytes.
\<close>

definition cleanRecord_entry :: "jsobject \<Rightarrow> string \<Rightarrow> jsobject" where
  "cleanRecord_entry record k =
     (case map_of record k of
        None \<Rightarrow> []
      | Some v \<Rightarrow> if v = JNull then [] else if v = JUndefined then [] else [(k, v)])"

definition cleanRecord :: "jsobject \<Rightarrow> jsobject" where
  "cleanRecord record =
     concat (map (cleanRecord_entry record)
       (sort (filter (\<lambda>key. \<not> List.member excludeFields key) (Object_keys record))))"

definition createCanonicalJson :: "jsobject \<Rightarrow> string" where
  "createCanonicalJson record = JSON_stringify (cleanRecord record)"

text \<open>
  The cryptographic primitives come from Node's \<open>crypto\<close> and from node-forge, which are
  not part of the repository: they are parameters of the model. A call that throws returns
  \<open>Inl\<close> of the error's message. \<open>sha256\<close> is the raw digest; \<open>digest('hex')\<close> is its
  lower-case hexadecimal text.
\<close>

record ('pk, 'sk) crypto_lib =
  sha256 :: "string \<Rightarrow> string"
  publicKeyFromPem :: "string \<Rightarrow> string + 'pk"
  privateKeyFromPem :: "string \<Rightarrow> string + 'sk"
  rsa_sign :: "'sk \<Rightarrow> string \<Rightarrow> string + string"
  rsa_verify :: "'pk \<Rightarrow> string \<Rightarrow> string \<Rightarrow> string + bool"
  encode64 :: "string \<Rightarrow> string"
  decode64 :: "string \<Rightarrow> string + string"

definition hex_of_bytes :: "string \<Rightarrow> string" where
  "hex_of_bytes s =
     concat (map (\<lambda>c. [hex_digit ((of_char c :: nat) div 16), hex_digit (of_char c)]) s)"

definition generateHash :: "('pk, 'sk) crypto_lib \<Rightarrow> jsobject \<Rightarrow> string" where
  "generateHash L record = hex_of_bytes (sha256 L (createCanonicalJson record))"

section \<open>Signing and signature verification\<close>

text \<open>
  The engine is the singleton \<open>cryptoUtils\<close>; its state is the PEM text of the key pair
  loaded by \<open>loadKeys\<close>. The wall-clock fields (\<open>verifiedAt\<close>, \<open>timestamp\<close>) and the
  calls of the logger are not part of the model.
\<close>

record engine =
  privateKey :: string
  publicKey :: string

record signer_info =
  si_name :: "string option"
  si_role :: "string option"
  si_email :: "string option"

record signature_data =
  sd_signature :: string
  sd_publicKey :: string
  sd_name :: string
  sd_role :: string
  sd_email :: string
  sd_algorithm :: string

text \<open>\<open>x || d\<close> on an optional string: \<open>null\<close>, \<open>undefined\<close> and the empty string are falsy.\<close>

definition or_default :: "string option \<Rightarrow> string \<Rightarrow> string" where
  "or_default x d = (case x of None \<Rightarrow> d | Some s \<Rightarrow> if s = [] then d else s)"

text \<open>
  \<open>signRecord\<close>: whatever is thrown inside the \<open>try\<close> is replaced by the error
  \<open>Failed to create digital signature\<close>, which the caller receives.
\<close>

definition signRecord ::
  "('pk, 'sk) crypto_lib \<Rightarrow> engine \<Rightarrow> jsobject \<Rightarrow> signer_info \<Rightarrow> string + signature_data" where
  "signRecord L E record signerInfo =
     (let canonicalJson = createCanonicalJson record;
          hash = sha256 L canonicalJson
      in case privateKeyFromPem L (privateKey E) of
           Inl msg \<Rightarrow> Inl ''Failed to create digital signature''
         | Inr privateKeyObj \<Rightarrow>
            (case rsa_sign L privateKeyObj hash of
               Inl msg \<Rightarrow> Inl ''Failed to create digital signature''
             | Inr signature \<Rightarrow>
                 Inr \<lparr>sd_signature = encode64 L signature,
                      sd_publicKey = publicKey E,
                      sd_name = or_default (si_name signerInfo) ''System'',
                      sd_role = or_default (si_role signerInfo) ''Automated'',
                      sd_email = or_default (si_email signerInfo) ''system@transparency.gov'',
                      sd_algorithm = ''RSA-SHA256''\<rparr>))"

text \<open>
  \<open>verifySignature\<close>: the whole body is inside \<open>try\<close>; the \<open>catch\<close> branch returns
  \<open>{isValid: false, error: error.message}\<close>. The optional \<open>publicKey\<close> argument defaults
  to \<open>null\<close>, and \<open>publicKey || this.publicKey\<close> picks the engine's own key when the
  argument is falsy.
\<close>

record sig_check =
  isValid :: bool
  algorithm :: "string option"
  error :: "string option"

definition caught :: "string \<Rightarrow> sig_check" where
  "caught msg = \<lparr>isValid = False, algorithm = None, error = Some msg\<rparr>"

definition verifySignature ::
  "('pk, 'sk) crypto_lib \<Rightarrow> engine \<Rightarrow> jsobject \<Rightarrow> string \<Rightarrow> string option \<Rightarrow> sig_check" where
  "verifySignature L E record signature publicKeyArg =
     (let canonicalJson = createCanonicalJson record;
          hash = sha256 L canonicalJson;
          keyToUse = or_default publicKeyArg (publicKey E)
      in case publicKeyFromPem L keyToUse of
           Inl msg \<Rightarrow> caught msg
         | Inr publicKeyObj \<Rightarrow>
            (case decode64 L signature of
               Inl msg \<Rightarrow> caught msg
             | Inr signatureBytes \<Rightarrow>
                (case rsa_verify L publicKeyObj hash signatureBytes of
                   Inl msg \<Rightarrow> caught msg
                 | Inr ok \<Rightarrow>
                     \<lparr>isValid = ok, algorithm = Some ''RSA-SHA256'', error = None\<rparr>)))"

section \<open>Integrity check and status resolution\<close>

text \<open>Reading a property: an absent one is \<open>undefined\<close>.\<close>

definition get_prop :: "jsobject \<Rightarrow> string \<Rightarrow> jsval" where
  "get_prop obj k = (case map_of obj k of None \<Rightarrow> JUndefined | Some v \<Rightarrow> v)"

text \<open>
  \<open>verifyRecordIntegrity\<close> compares with \<open>===\<close>: the stored hash is whatever the row
  holds in \<open>record_hash\<close>, and only a string equal to the computed hash matches.
\<close>

record hash_verification =
  hv_isValid :: bool
  storedHash :: jsval
  computedHash :: string

definition verifyRecordIntegrity ::
  "('pk, 'sk) crypto_lib \<Rightarrow> jsobject \<Rightarrow> jsval \<Rightarrow> hash_verification" where
  "verifyRecordIntegrity L record stored =
     (let computed = generateHash L record
      in \<lparr>hv_isValid = (JStr computed = stored), storedHash = stored, computedHash = computed\<rparr>)"

text \<open>A row of the table \<open>approvals\<close>; the columns read by the engine are \<open>NOT NULL\<close>.\<close>

record approval =
  approver_name :: string
  approver_role :: string
  approver_email :: "string option"
  signed_at :: string
  signature :: string
  public_key :: string
  approval_status :: string
  comments :: "string option"

record signer =
  name :: string
  role :: string
  email :: "string option"
  signedAt :: string

record signature_verification = sig_check +
  signer :: signer

record verification =
  v_recordId :: jsval
  verificationStatus :: string
  hashVerification :: hash_verification
  signatureVerifications :: "signature_verification list"
  overallValid :: bool

definition verify_one ::
  "('pk, 'sk) crypto_lib \<Rightarrow> engine \<Rightarrow> jsobject \<Rightarrow> approval \<Rightarrow> signature_verification" where
  "verify_one L E record sig =
     (let r = verifySignature L E record (signature sig) (Some (public_key sig))
      in \<lparr>isValid = isValid r, algorithm = algorithm r, error = error r,
          signer = \<lparr>name = approver_name sig, role = approver_role sig,
                    email = approver_email sig, signedAt = signed_at sig\<rparr>\<rparr>)"

definition completeVerification ::
  "('pk, 'sk) crypto_lib \<Rightarrow> engine \<Rightarrow> jsobject \<Rightarrow> jsval \<Rightarrow> approval list \<Rightarrow> verification" where
  "completeVerification L E record stored signatures =
     (let hashVerification = verifyRecordIntegrity L record stored;
          signatureVerifications = map (verify_one L E record) signatures;
          allSignaturesValid =
            (length signatureVerifications > 0 \<and> list_all isValid signatureVerifications);
          verificationStatus =
            (if hv_isValid hashVerification \<and> allSignaturesValid then ''verified''
             else if hv_isValid hashVerification \<and> length signatureVerifications = 0
               then ''pending''
             else ''suspicious'')
      in \<lparr>v_recordId = get_prop record ''id'',
          verificationStatus = verificationStatus,
          hashVerification = hashVerification,
          signatureVerifications = signatureVerifications,
          overallValid =
            (hv_isValid hashVerification \<and>
             (allSignaturesValid \<or> length signatureVerifications = 0))\<rparr>)"

section \<open>What the canonical form depends on\<close>



text \<open>
  The text a value contributes to the canonical form: none when the value is \<open>null\<close> or
  \<open>undefined\<close> (the canonicaliser drops the field) or has no JSON text (a callable).
\<close>

definition value_text :: "jsval \<Rightarrow> string option" where
  "value_text v = (if v = JNull then None else if v = JUndefined then None else JSON_value v)"

definition field_text :: "jsobject \<Rightarrow> string \<Rightarrow> string option" where
  "field_text record k =
     (if List.member excludeFields k then None
      else case map_of record k of None \<Rightarrow> None | Some v \<Rightarrow> value_text v)"


text \<open>
  The entry a key contributes to the members that \<open>JSON.stringify\<close> writes for
  \<open>cleanRecord\<close>, and the keys in the order in which \<open>createCanonicalJson\<close> visits them.
\<close>

definition text_entry :: "jsobject \<Rightarrow> string \<Rightarrow> (string \<times> string) list" where
  "text_entry record k = (case field_text record k of None \<Rightarrow> [] | Some s \<Rightarrow> [(k, s)])"

definition canonical_keys :: "jsobject \<Rightarrow> string list" where
  "canonical_keys record =
     sort (filter (\<lambda>key. \<not> List.member excludeFields key) (Object_keys record))"

section \<open>The verification routes\<close>




record approval_view =
  av_name :: string
  av_role :: string
  av_email :: "string option"
  av_signedAt :: string
  av_status :: string
  av_comments :: "string option"
  hasValidSignature :: bool



text \<open>
  \<open>hasValidSignature\<close> is
  \<open>verification.signatureVerifications.find(sig => sig.signer.name === approval.approver_name)?.isValid || false\<close>:
  the validity of the first verification whose signer has the approval's name.
\<close>

definition approval_report :: "verification \<Rightarrow> approval \<Rightarrow> approval_view" where
  "approval_report v a =
     \<lparr>av_name = approver_name a, av_role = approver_role a, av_email = approver_email a,
      av_signedAt = signed_at a, av_status = approval_status a, av_comments = comments a,
      hasValidSignature =
        (case find (\<lambda>sig. name (signer sig) = approver_name a) (signatureVerifications v) of
           None \<Rightarrow> False
         | Some sig \<Rightarrow> isValid sig)\<rparr>"



















section \<open>A small library and database for evaluating the definitions\<close>


definition demo_lib :: "(string, string) crypto_lib" where
  "demo_lib =
     \<lparr>sha256 = (\<lambda>s. s),
      publicKeyFromPem =
        (\<lambda>p. if take 3 p = ''PUB'' then Inr (drop 3 p) else Inl ''Invalid PEM formatted message.''),
      privateKeyFromPem =
        (\<lambda>p. if take 3 p = ''PRV'' then Inr (drop 3 p) else Inl ''Invalid PEM formatted message.''),
      rsa_sign = (\<lambda>k h. Inr (k @ h)),
      rsa_verify =
        (\<lambda>k h s. if s = [] then Inl ''Encryption block is invalid.'' else Inr (s = k @ h)),
      encode64 = (\<lambda>s. s),
      decode64 = (\<lambda>s. if take 1 s = ''!'' then Inl ''Invalid base64'' else Inr s)\<rparr>"

definition demo_engine :: engine where
  "demo_engine = \<lparr>privateKey = ''PRVk1'', publicKey = ''PUBk1''\<rparr>"

definition demo_record :: jsobject where
  "demo_record =
     [(''id'', JStr ''b1''), (''department'', JStr ''Education''), (''year'', JNum 2024),
      (''created_at'', JDate ''2024-01-15T00:00:00.000Z''), (''description'', JNull)]"

definition demo_approval :: "string \<Rightarrow> string \<Rightarrow> approval" where
  "demo_approval who sig =
     \<lparr>approver_name = who, approver_role = ''Officer'', approver_email = None,
      signed_at = ''2024-02-01T00:00:00.000Z'', signature = sig, public_key = ''PUBk1'',
      approval_status = ''approved'', comments = None\<rparr>"



section \<open>Properties of the canonical form\<close>


lemma mset_OwnPropertyKeys_order: "mset (OwnPropertyKeys_order ps) = mset ps"
  by (simp add: OwnPropertyKeys_order_def)

lemma set_OwnPropertyKeys_order: "set (OwnPropertyKeys_order ps) = set ps"
  using mset_OwnPropertyKeys_order [of ps] by (metis set_mset_mset)

lemma set_Object_keys: "set (Object_keys r) = fst ` set r"
  by (simp add: Object_keys_def set_OwnPropertyKeys_order)

lemma distinct_Object_keys: "distinct (map fst r) \<Longrightarrow> distinct (Object_keys r)"
proof -
  assume d: "distinct (map fst r)"
  have "mset (Object_keys r) = mset (map fst r)"
    unfolding Object_keys_def by (simp add: mset_OwnPropertyKeys_order)
  then show ?thesis using d by (metis mset_eq_imp_distinct_iff)
qed

lemma JSON_members_append: "JSON_members (xs @ ys) = JSON_members xs @ JSON_members ys"
  by (induction xs) (auto split: option.splits)

lemma JSON_members_concat: "JSON_members (concat xss) = concat (map JSON_members xss)"
  by (induction xss) (auto simp: JSON_members_append)

lemma JSON_members_entry:
  "\<not> List.member excludeFields k \<Longrightarrow> JSON_members (cleanRecord_entry r k) = text_entry r k"
  by (auto simp: cleanRecord_entry_def text_entry_def field_text_def value_text_def
           split: option.splits)

lemma canonical_members:
  "JSON_members (cleanRecord r) = concat (map (text_entry r) (canonical_keys r))"
proof -
  have "map (JSON_members \<circ> cleanRecord_entry r) (canonical_keys r)
        = map (text_entry r) (canonical_keys r)"
    by (rule map_cong) (auto simp: canonical_keys_def JSON_members_entry)
  moreover have "JSON_members (cleanRecord r)
        = concat (map (JSON_members \<circ> cleanRecord_entry r) (canonical_keys r))"
    by (simp only: cleanRecord_def JSON_members_concat canonical_keys_def map_map)
  ultimately show ?thesis by (simp only:)
qed

lemma map_fst_concat_entries:
  "map fst (concat (map (text_entry r) ks)) = filter (\<lambda>k. field_text r k \<noteq> None) ks"
  by (induction ks) (auto simp: text_entry_def split: option.splits)

lemma set_concat_entries:
  "set (concat (map (text_entry r) ks)) = {(k, s). k \<in> set ks \<and> field_text r k = Some s}"
  by (induction ks) (auto simp: text_entry_def split: option.splits)

lemma field_text_in_keys: "field_text r k = Some s \<Longrightarrow> k \<in> set (canonical_keys r)"
  by (auto simp: field_text_def canonical_keys_def set_Object_keys map_of_eq_None_iff
      split: if_splits option.splits dest!: map_of_SomeD intro: rev_image_eqI)

lemma set_canonical_members:
  "set (JSON_members (cleanRecord r)) = {(k, s). field_text r k = Some s}"
  unfolding canonical_members set_concat_entries
  by (auto simp: field_text_in_keys)

lemma sorted_canonical_members: "sorted (map fst (JSON_members (cleanRecord r)))"
  by (simp add: canonical_members map_fst_concat_entries canonical_keys_def sorted_wrt_filter)

lemma distinct_canonical_members:
  "distinct (map fst r) \<Longrightarrow> distinct (map fst (JSON_members (cleanRecord r)))"
  by (simp add: canonical_members map_fst_concat_entries canonical_keys_def distinct_Object_keys)

lemma assoc_unique:
  assumes "sorted (map fst xs)" "distinct (map fst xs)"
    and "sorted (map fst ys)" "distinct (map fst ys)" and "set xs = set ys"
  shows "xs = ys"
proof -
  have k: "map fst xs = map fst ys"
    using assms by (intro sorted_distinct_set_unique) auto
  have m: "map_of xs = map_of ys"
    using assms by (simp add: map_of_inject_set)
  have "map snd xs = map snd ys"
  proof (rule nth_equalityI)
    show "length (map snd xs) = length (map snd ys)" using k by (metis length_map)
  next
    fix i assume "i < length (map snd xs)"
    then have i: "i < length xs" "i < length ys" using k by (auto dest: arg_cong [where f = length])
    have "map_of xs (fst (xs ! i)) = Some (snd (xs ! i))"
      using assms(2) i by (simp add: map_of_eq_Some_iff)
    moreover have "map_of ys (fst (ys ! i)) = Some (snd (ys ! i))"
      using assms(4) i by (simp add: map_of_eq_Some_iff)
    moreover have "fst (xs ! i) = fst (ys ! i)"
      using k i by (metis nth_map)
    ultimately show "map snd xs ! i = map snd ys ! i" using m i by simp
  qed
  with k show ?thesis by (metis zip_map_fst_snd)
qed

lemma canonical_depends_on_field_text:
  assumes "distinct (map fst r1)" "distinct (map fst r2)" "field_text r1 = field_text r2"
  shows "createCanonicalJson r1 = createCanonicalJson r2"
proof -
  have "JSON_members (cleanRecord r1) = JSON_members (cleanRecord r2)"
    using assms
    by (intro assoc_unique sorted_canonical_members distinct_canonical_members)
       (simp_all add: set_canonical_members)
  then show ?thesis by (simp add: createCanonicalJson_def JSON_stringify_def)
qed

section \<open>Status resolution\<close>

lemma status_cases:
  "verificationStatus (completeVerification L E record stored signatures) =
     (if JStr (generateHash L record) = stored
      then (if signatures = [] then ''pending''
            else if list_all (\<lambda>a. isValid (verify_one L E record a)) signatures then ''verified''
            else ''suspicious'')
      else ''suspicious'')"
  by (simp add: completeVerification_def verifyRecordIntegrity_def Let_def list_all_iff)

text \<open>
  Claim C1. Whenever the recomputed hash differs from the stored hash,
  \<open>completeVerification\<close> answers \<open>suspicious\<close>, for every list of signatures and
  whatever their verification says.
\<close>

theorem tamper_dominates:
  assumes "JStr (generateHash L record) \<noteq> stored"
  shows "verificationStatus (completeVerification L E record stored signatures) = ''suspicious''"
  using assms by (simp add: status_cases)

lemma canonical_starts_with_brace: "\<exists>rest. createCanonicalJson r = CHR ''{'' # rest"
  by (simp add: createCanonicalJson_def JSON_stringify_def SerializeJSONObject_def)

lemma demo_hash_starts_with_7: "\<exists>rest. generateHash demo_lib r = CHR ''7'' # rest"
proof -
  obtain rest where "createCanonicalJson r = CHR ''{'' # rest"
    using canonical_starts_with_brace by blast
  then show ?thesis
    by (simp add: generateHash_def demo_lib_def hex_of_bytes_def hex_digit_def)
qed

lemma demo_valid:
  "isValid (verify_one demo_lib demo_engine r
     (demo_approval who (''k1'' @ createCanonicalJson r)))"
  by (simp add: verify_one_def verifySignature_def demo_lib_def demo_engine_def demo_approval_def
      or_default_def)

theorem tamper_dominates_witness:
  "JStr (generateHash demo_lib demo_record) \<noteq> JStr ''a1b2c3'' \<and>
   isValid (verify_one demo_lib demo_engine demo_record
     (demo_approval ''Alice'' (''k1'' @ createCanonicalJson demo_record))) \<and>
   verificationStatus (completeVerification demo_lib demo_engine demo_record (JStr ''a1b2c3'')
     [demo_approval ''Alice'' (''k1'' @ createCanonicalJson demo_record)]) = ''suspicious''"
proof -
  have h: "JStr (generateHash demo_lib demo_record) \<noteq> JStr ''a1b2c3''"
    using demo_hash_starts_with_7 [of demo_record] by auto
  show ?thesis using h tamper_dominates [OF h] demo_valid by simp
qed

text \<open>
  Claim C2. The status is \<open>pending\<close> exactly when the recomputed hash equals the stored
  hash and there is no signature; in every other case it is \<open>verified\<close> or
  \<open>suspicious\<close>.
\<close>

theorem pending_exactly:
  "(verificationStatus (completeVerification L E record stored signatures) = ''pending''
      \<longleftrightarrow> JStr (generateHash L record) = stored \<and> signatures = []) \<and>
   (\<not> (JStr (generateHash L record) = stored \<and> signatures = []) \<longrightarrow>
      verificationStatus (completeVerification L E record stored signatures) = ''verified'' \<or>
      verificationStatus (completeVerification L E record stored signatures) = ''suspicious'')"
  by (simp add: status_cases)

theorem pending_exactly_witness:
  "verificationStatus (completeVerification demo_lib demo_engine demo_record
      (JStr (generateHash demo_lib demo_record)) []) = ''pending'' \<and>
   verificationStatus (completeVerification demo_lib demo_engine demo_record
      (JStr (generateHash demo_lib demo_record))
      [demo_approval ''Alice'' (''k1'' @ createCanonicalJson demo_record)]) = ''verified'' \<and>
   verificationStatus (completeVerification demo_lib demo_engine demo_record
      (JStr ''a1b2c3'') []) = ''suspicious''"
proof -
  have h: "JStr (generateHash demo_lib demo_record) \<noteq> JStr ''a1b2c3''"
    using demo_hash_starts_with_7 [of demo_record] by auto
  have p: "verificationStatus (completeVerification demo_lib demo_engine demo_record
      (JStr (generateHash demo_lib demo_record)) []) = ''pending''"
    using pending_exactly [of demo_lib demo_engine demo_record
        "JStr (generateHash demo_lib demo_record)" "[]"] by simp
  have v: "verificationStatus (completeVerification demo_lib demo_engine demo_record
      (JStr (generateHash demo_lib demo_record))
      [demo_approval ''Alice'' (''k1'' @ createCanonicalJson demo_record)]) = ''verified''"
    using pending_exactly [of demo_lib demo_engine demo_record
        "JStr (generateHash demo_lib demo_record)"
        "[demo_approval ''Alice'' (''k1'' @ createCanonicalJson demo_record)]"]
      demo_valid [of demo_record "''Alice''"]
    by (simp add: status_cases)
  have s: "verificationStatus (completeVerification demo_lib demo_engine demo_record
      (JStr ''a1b2c3'') []) = ''suspicious''"
    using pending_exactly [of demo_lib demo_engine demo_record "JStr ''a1b2c3''" "[]"] h
    by (simp add: status_cases)
  show ?thesis using p v s by simp
qed

section \<open>Order independence, signature verification\<close>

text \<open>
  Claim C3. Two rows with the same (key, value) pairs, inserted in different orders, have
  the same canonical string and the same hash.
\<close>

theorem canonical_order_independent:
  assumes "distinct (map fst r1)" and "distinct (map fst r2)" and "set r1 = set r2"
  shows "createCanonicalJson r1 = createCanonicalJson r2 \<and> generateHash L r1 = generateHash L r2"
proof -
  have "map_of r1 = map_of r2"
    using assms by (simp add: map_of_inject_set)
  then have "field_text r1 = field_text r2"
    by (intro ext) (simp add: field_text_def)
  then have "createCanonicalJson r1 = createCanonicalJson r2"
    using assms by (intro canonical_depends_on_field_text)
  then show ?thesis by (simp add: generateHash_def)
qed

theorem canonical_order_independent_witness:
  "distinct (map fst [(''year'', JNum 2024), (''department'', JStr ''Education'')]) \<and>
   distinct (map fst [(''department'', JStr ''Education''), (''year'', JNum 2024)]) \<and>
   set [(''year'', JNum 2024), (''department'', JStr ''Education'')] =
     set [(''department'', JStr ''Education''), (''year'', JNum 2024)] \<and>
   createCanonicalJson [(''year'', JNum 2024), (''department'', JStr ''Education'')] =
     createCanonicalJson [(''department'', JStr ''Education''), (''year'', JNum 2024)] \<and>
   generateHash demo_lib [(''year'', JNum 2024), (''department'', JStr ''Education'')] =
     generateHash demo_lib [(''department'', JStr ''Education''), (''year'', JNum 2024)]"
proof -
  have d1: "distinct (map fst [(''year'', JNum 2024), (''department'', JStr ''Education'')])"
    by simp
  have d2: "distinct (map fst [(''department'', JStr ''Education''), (''year'', JNum 2024)])"
    by simp
  have s: "set [(''year'', JNum 2024), (''department'', JStr ''Education'')] =
     set [(''department'', JStr ''Education''), (''year'', JNum 2024)]"
    by auto
  show ?thesis
    using canonical_order_independent [OF d1 d2 s, of demo_lib] d1 d2 s by simp
qed

text \<open>
  Claim C6. \<open>verifySignature\<close> always returns a result: the whole body is inside
  \<open>try\<close>, so the model's result type has no error alternative. The result is valid
  only when the key parses, the signature decodes and the library accepts it; whenever one
  of the three library calls throws, the result is \<open>isValid = false\<close> with the message
  of the error.
\<close>

theorem verifySignature_fails_closed:
  "(isValid (verifySignature L E record sigtext publicKeyArg) \<longleftrightarrow>
      (\<exists>key bytes.
         publicKeyFromPem L (or_default publicKeyArg (publicKey E)) = Inr key \<and>
         decode64 L sigtext = Inr bytes \<and>
         rsa_verify L key (sha256 L (createCanonicalJson record)) bytes = Inr True)) \<and>
   (\<forall>msg.
      (publicKeyFromPem L (or_default publicKeyArg (publicKey E)) = Inl msg \<or>
       (\<exists>key. publicKeyFromPem L (or_default publicKeyArg (publicKey E)) = Inr key \<and>
          (decode64 L sigtext = Inl msg \<or>
           (\<exists>bytes. decode64 L sigtext = Inr bytes \<and>
              rsa_verify L key (sha256 L (createCanonicalJson record)) bytes = Inl msg))))
      \<longrightarrow> verifySignature L E record sigtext publicKeyArg =
            \<lparr>isValid = False, algorithm = None, error = Some msg\<rparr>)"
  by (auto simp: verifySignature_def caught_def Let_def split: sum.splits)

theorem verifySignature_fails_closed_witness:
  "verifySignature demo_lib demo_engine demo_record ''k1sig'' (Some ''not a PEM key'') =
     \<lparr>isValid = False, algorithm = None, error = Some ''Invalid PEM formatted message.''\<rparr> \<and>
   verifySignature demo_lib demo_engine demo_record ''!!!'' (Some ''PUBk1'') =
     \<lparr>isValid = False, algorithm = None, error = Some ''Invalid base64''\<rparr> \<and>
   verifySignature demo_lib demo_engine demo_record '''' (Some ''PUBk1'') =
     \<lparr>isValid = False, algorithm = None, error = Some ''Encryption block is invalid.''\<rparr>"
proof -
  have a: "publicKeyFromPem demo_lib (or_default (Some ''not a PEM key'') (publicKey demo_engine))
       = Inl ''Invalid PEM formatted message.''"
    by (simp add: demo_lib_def or_default_def)
  have b: "publicKeyFromPem demo_lib (or_default (Some ''PUBk1'') (publicKey demo_engine)) = Inr ''k1''"
    by (simp add: demo_lib_def or_default_def)
  have c: "decode64 demo_lib ''!!!'' = Inl ''Invalid base64''"
    by (simp add: demo_lib_def)
  have d: "decode64 demo_lib '''' = Inr ''''"
    by (simp add: demo_lib_def)
  have e: "rsa_verify demo_lib ''k1'' (sha256 demo_lib (createCanonicalJson demo_record)) ''''
       = Inl ''Encryption block is invalid.''"
    by (simp add: demo_lib_def)
  note t = verifySignature_fails_closed [THEN conjunct2, rule_format]
  have 1: "verifySignature demo_lib demo_engine demo_record ''k1sig'' (Some ''not a PEM key'') =
     \<lparr>isValid = False, algorithm = None, error = Some ''Invalid PEM formatted message.''\<rparr>"
    using a by (intro t) blast
  have 2: "verifySignature demo_lib demo_engine demo_record ''!!!'' (Some ''PUBk1'') =
     \<lparr>isValid = False, algorithm = None, error = Some ''Invalid base64''\<rparr>"
    using b c by (intro t) blast
  have 3: "verifySignature demo_lib demo_engine demo_record '''' (Some ''PUBk1'') =
     \<lparr>isValid = False, algorithm = None, error = Some ''Encryption block is invalid.''\<rparr>"
    using b d e by (intro t) blast
  show ?thesis using 1 2 3 by simp
qed



section \<open>Changing one field\<close>















subsection \<open>The hexadecimal digest is injective\<close>





subsection \<open>Joining members\<close>


















section \<open>Unsupported value kinds\<close>




section \<open>Batch verification\<close>










section \<open>Certificates\<close>

lemma verify_one_signer: "name (signer (verify_one L E r a)) = approver_name a"
  by (simp add: verify_one_def Let_def)


lemma signatureVerifications_map:
  "signatureVerifications (completeVerification L E r stored sigs) = map (verify_one L E r) sigs"
  by (simp add: completeVerification_def Let_def)

lemma hashVerification_fields:
  "storedHash (hashVerification (completeVerification L E r stored sigs)) = stored"
  "computedHash (hashVerification (completeVerification L E r stored sigs)) = generateHash L r"
  "hv_isValid (hashVerification (completeVerification L E r stored sigs))
     = (JStr (generateHash L r) = stored)"
  by (simp_all add: completeVerification_def verifyRecordIntegrity_def Let_def)




text \<open>
  With pairwise distinct approver names the lookup by name finds each approval's own
  verification, and the per-signer values agree with the verification result.
\<close>

lemma find_by_name:
  assumes "distinct (map approver_name sigs)" and "a \<in> set sigs"
  shows "find (\<lambda>sv. name (signer sv) = approver_name a) (map (verify_one L E r) sigs)
           = Some (verify_one L E r a)"
  using assms
proof (induction sigs)
  case Nil
  then show ?case by simp
next
  case (Cons x xs)
  show ?case
  proof (cases "approver_name x = approver_name a")
    case True
    with Cons.prems have "a = x" by (auto simp: image_iff)
    then show ?thesis by (simp add: verify_one_signer)
  next
    case False
    with Cons show ?thesis by (auto simp: verify_one_signer)
  qed
qed

lemma distinct_names_no_drift:
  assumes "distinct (map approver_name sigs)"
  shows "map hasValidSignature
           (map (approval_report (completeVerification L E r stored sigs)) sigs)
         = map isValid (signatureVerifications (completeVerification L E r stored sigs))"
proof -
  have "hasValidSignature (approval_report (completeVerification L E r stored sigs) a)
        = isValid (verify_one L E r a)" if "a \<in> set sigs" for a
    using find_by_name [OF assms that, of L E r]
    by (simp add: approval_report_def signatureVerifications_map)
  then show ?thesis by (simp add: signatureVerifications_map)
qed


section \<open>Evaluating the batch route\<close>





section \<open>Signing, then verifying\<close>

text \<open>
  What the engine itself contributes to a signature round trip: \<open>signRecord\<close> and
  \<open>verifySignature\<close> hand the library the same digest of the same canonical string,
  and the signature goes through \<open>encode64\<close> and \<open>decode64\<close>. Whether the signature
  then verifies is the library's answer.
\<close>

lemma sign_then_verify:
  assumes "privateKeyFromPem L (privateKey E) = Inr sk"
    and "publicKeyFromPem L (publicKey E) = Inr pk"
    and "publicKey E \<noteq> []"
    and "rsa_sign L sk (sha256 L (createCanonicalJson r)) = Inr s"
    and "decode64 L (encode64 L s) = Inr s"
    and "signRecord L E r info = Inr sd"
  shows "isValid (verifySignature L E r (sd_signature sd) (Some (sd_publicKey sd)))
           \<longleftrightarrow> rsa_verify L pk (sha256 L (createCanonicalJson r)) s = Inr True"
  using assms
  by (auto simp: signRecord_def verifySignature_def or_default_def caught_def Let_def
      split: sum.splits)

end
